theory Spec2Isabelle
  imports Main "HOL-Library.AList"
begin

section \<open>Values, objects and the heap\<close>

text \<open>
  The decorator factory mutates spec objects and metadata maps in place and compares
  targets by identity, so objects live in an explicit heap and a value of reference
  type is an address. Numbers are integers here; a function value is opaque.
\<close>

type_synonym addr = nat

datatype val = Undefined | Null | Bool bool | Num int | Str string | Fn string | Ref addr

text \<open>
  A decoration target is a class constructor (static members) or the prototype of a
  class (instance members). \<open>Sub n c\<close> is the class \<open>n\<close> that extends \<open>c\<close>, so the
  prototype chain of a target is part of the target and is finite.
\<close>

datatype site = Constructor | Prototype

datatype cls = Class string | Sub string cls

type_synonym target = "site \<times> cls"

text \<open>
  An object is a plain object, an array or a date; each carries its own named
  properties in insertion order. The hidden property \<open>__decoratorTarget\<close> is the field
  \<open>origin\<close>: it is not enumerable, and once defined it is neither writable nor
  configurable. Specs whose own keys include that reserved name, frozen objects and
  accessors are outside this model, and so is the accessor \<open>__proto__\<close> of
  \<open>Object.prototype\<close>: the property name \<open>__proto__\<close> is read and written here like any
  other name.
\<close>

datatype kind = Plain | Arr "val list" | Date int

record obj =
  kind :: kind
  props :: "(string \<times> val) list"
  origin :: "target option"

record heap =
  cells :: "addr \<Rightarrow> obj"
  fresh :: addr

datatype error = TypeError | RangeError | DuplicateDecorationError string

datatype jstype = TyUndefined | TyObject | TyBoolean | TyNumber | TyString | TyFunction

fun typeof :: "val \<Rightarrow> jstype" where
  "typeof Undefined = TyUndefined"
| "typeof Null = TyObject"
| "typeof (Bool b) = TyBoolean"
| "typeof (Num n) = TyNumber"
| "typeof (Str s) = TyString"
| "typeof (Fn f) = TyFunction"
| "typeof (Ref a) = TyObject"

text \<open>\<open>v == null\<close>: true of \<open>null\<close> and \<open>undefined\<close> only.\<close>

fun nullish :: "val \<Rightarrow> bool" where
  "nullish Undefined = True"
| "nullish Null = True"
| "nullish v = False"

text \<open>\<open>!!v\<close>.\<close>

fun truthy :: "val \<Rightarrow> bool" where
  "truthy Undefined = False"
| "truthy Null = False"
| "truthy (Bool b) = b"
| "truthy (Num n) = (n \<noteq> 0)"
| "truthy (Str s) = (s \<noteq> [])"
| "truthy (Fn f) = True"
| "truthy (Ref a) = True"

fun isArray :: "heap \<Rightarrow> val \<Rightarrow> bool" where
  "isArray h (Ref a) = (case kind (cells h a) of Arr xs \<Rightarrow> True | _ \<Rightarrow> False)"
| "isArray h v = False"

definition emptyObj :: obj where
  "emptyObj = \<lparr>kind = Plain, props = [], origin = None\<rparr>"

definition alloc :: "heap \<Rightarrow> obj \<Rightarrow> heap \<times> val" where
  "alloc h ob = (h\<lparr>cells := (cells h)(fresh h := ob), fresh := Suc (fresh h)\<rparr>, Ref (fresh h))"

text \<open>\<open>o[k] = v\<close> on an object: an existing key keeps its place, a new key goes last.\<close>

definition setProp :: "string \<Rightarrow> val \<Rightarrow> obj \<Rightarrow> obj" where
  "setProp k v ob = ob\<lparr>props := AList.update k v (props ob)\<rparr>"

text \<open>
  \<open>o[k]\<close> on an object: the own property if there is one; else the read goes to
  \<open>Object.prototype\<close>, which has a function under each of the names below and nothing
  under any other name.
\<close>

definition objectPrototypeFunctions :: "string list" where
  "objectPrototypeFunctions =
     [''constructor'', ''hasOwnProperty'', ''isPrototypeOf'', ''propertyIsEnumerable'',
      ''toLocaleString'', ''toString'', ''valueOf'', ''__defineGetter__'', ''__defineSetter__'',
      ''__lookupGetter__'', ''__lookupSetter__'']"

definition getProp :: "obj \<Rightarrow> string \<Rightarrow> val" where
  "getProp ob k =
     (case map_of (props ob) k of
        Some v \<Rightarrow> v
      | None \<Rightarrow> if k \<in> set objectPrototypeFunctions then Fn k else Undefined)"

text \<open>A member name that \<open>Object.prototype\<close> has nothing under.\<close>

definition ordinaryName :: "string \<Rightarrow> bool" where
  "ordinaryName k = (k \<noteq> ''__proto__'' \<and> k \<notin> set objectPrototypeFunctions)"


section \<open>utils/clone-deep.ts\<close>

text \<open>
  \<open>cloneDeep\<close> recurses through the object graph, so the model carries the call
  depth that is left: a reference met when no depth is left is the engine's
  \<open>RangeError\<close> (stack overflow), which is what a cyclic spec ends in.

  A date is copied, and an array is mapped to a new array of the clones of its
  elements. For any other object the source folds the clones of all own properties
  into a new object made by \<open>Object.create\<close>, but that \<open>reduce\<close> expression is a
  statement of its own: its value is dropped and control falls through to
  \<open>return source\<close>. The new object and everything cloned into it are unreachable from
  then on, so the heap they were allocated in is dropped here too; what remains of the
  traversal is that it can overflow the stack. The value of the hidden origin property
  is a class or a prototype holding functions, which \<open>cloneDeep\<close> returns as they are.
\<close>

fun cloneDeep :: "nat \<Rightarrow> heap \<Rightarrow> val \<Rightarrow> error + (heap \<times> val)"
  and cloneAll :: "nat \<Rightarrow> heap \<Rightarrow> val list \<Rightarrow> error + (heap \<times> val list)" where
  "cloneDeep d h (Ref a) =
     (case d of
        0 \<Rightarrow> Inl RangeError
      | Suc d' \<Rightarrow>
          (case kind (cells h a) of
             Date t \<Rightarrow> Inr (alloc h \<lparr>kind = Date t, props = [], origin = None\<rparr>)
           | Arr xs \<Rightarrow>
               (case cloneAll d' h xs of
                  Inl e \<Rightarrow> Inl e
                | Inr (h', ys) \<Rightarrow> Inr (alloc h' \<lparr>kind = Arr ys, props = [], origin = None\<rparr>))
           | Plain \<Rightarrow>
               (case cloneAll d' h (map snd (props (cells h a))) of
                  Inl e \<Rightarrow> Inl e
                | Inr r \<Rightarrow> Inr (h, Ref a))))"
| "cloneDeep d h v = Inr (h, v)"
| "cloneAll d h [] = Inr (h, [])"
| "cloneAll d h (x # xs) =
     (case cloneDeep d h x of
        Inl e \<Rightarrow> Inl e
      | Inr (h', y) \<Rightarrow>
          (case cloneAll d h' xs of
             Inl e \<Rightarrow> Inl e
           | Inr (h'', ys) \<Rightarrow> Inr (h'', y # ys)))"

section \<open>utils: getTargetName, and errors/duplicate-decoration-error.ts\<close>

fun digits :: "nat \<Rightarrow> string" where
  "digits n = (if n < 10 then [''0123456789'' ! n] else digits (n div 10) @ [''0123456789'' ! (n mod 10)])"

declare digits.simps [simp del]

text \<open>
  The third argument of a decoration is a method descriptor or a parameter index.
  Member names are strings here; symbols are not modelled.
\<close>

datatype descriptorOrIndex = Descriptor | Index nat

fun className :: "cls \<Rightarrow> string" where
  "className (Class n) = n"
| "className (Sub n c) = n"

definition getTargetName :: "target \<Rightarrow> string option \<Rightarrow> descriptorOrIndex option \<Rightarrow> string" where
  "getTargetName target member descriptorOrIndex =
     (let name = (case fst target of
                    Constructor \<Rightarrow> className (snd target)
                  | Prototype \<Rightarrow> className (snd target) @ ''.prototype'')
      in if member = None \<and> descriptorOrIndex = None then ''class '' @ name
         else
           let member' = (case member of
                            None \<Rightarrow> ''constructor''
                          | Some n \<Rightarrow> if n = [] then ''constructor'' else n);
               memberAccessor = ''.'' @ member'
           in case descriptorOrIndex of
                Some (Index i) \<Rightarrow> name @ memberAccessor @ ''['' @ digits i @ '']''
              | Some Descriptor \<Rightarrow> name @ memberAccessor @ ''()''
              | None \<Rightarrow> name @ memberAccessor)"

definition newDuplicateDecorationError ::
  "string \<Rightarrow> target \<Rightarrow> string option \<Rightarrow> descriptorOrIndex option \<Rightarrow> error" where
  "newDuplicateDecorationError decoratorName target member descriptorOrIndex =
     DuplicateDecorationError
       (''duplicate '' @ decoratorName @ '' on '' @ getTargetName target member descriptorOrIndex)"

section \<open>The reflection store\<close>

text \<open>
  Modelled from the spec: the module \<open>./reflect\<close> (\<open>Reflection.getOwnMetadata\<close>,
  \<open>Reflection.getMetadata\<close>, \<open>Reflection.defineMetadata\<close>) is not among the sources.
  Section 4.2 of the specification describes it as a store keyed by (metadata key,
  target) that holds a metadata value. Absent is \<open>undefined\<close>.
\<close>

type_synonym store = "string \<times> target \<Rightarrow> val option"

text \<open>
  Modelled from the spec: \<open>getOwn(key, target)\<close> is the metadata defined directly on the
  target for the key, ignoring ancestors.
\<close>

definition getOwnMetadata :: "store \<Rightarrow> string \<Rightarrow> target \<Rightarrow> val" where
  "getOwnMetadata st k target = (case st (k, target) of Some v \<Rightarrow> v | None \<Rightarrow> Undefined)"

text \<open>
  Modelled from the spec: \<open>getEffective(key, target)\<close> is the own value if present, else
  the nearest ancestor's value found by walking the inheritance chain upward, and
  absent if there is none anywhere in the chain.
\<close>

fun getMetadataOf :: "store \<Rightarrow> string \<Rightarrow> site \<Rightarrow> cls \<Rightarrow> val" where
  "getMetadataOf st k s (Class n) = getOwnMetadata st k (s, Class n)"
| "getMetadataOf st k s (Sub n c) =
     (case st (k, (s, Sub n c)) of Some v \<Rightarrow> v | None \<Rightarrow> getMetadataOf st k s c)"

definition getMetadata :: "store \<Rightarrow> string \<Rightarrow> target \<Rightarrow> val" where
  "getMetadata st k target = getMetadataOf st k (fst target) (snd target)"

text \<open>
  Modelled from the spec: \<open>define(key, target, value)\<close> stores or overwrites the own value
  for (key, target).
\<close>

definition defineMetadata :: "store \<Rightarrow> string \<Rightarrow> val \<Rightarrow> target \<Rightarrow> store" where
  "defineMetadata st k v target = st((k, target) \<mapsto> v)"

record world =
  mem :: heap
  store :: store

section \<open>DecoratorFactory and MethodDecoratorFactory\<close>

text \<open>\<open>DecoratorOptions\<close>: each field may be left out.\<close>

record decoratorOptions =
  optDecoratorName :: "string option"
  optAllowInheritance :: "bool option"
  optCloneInputSpec :: "bool option"

definition noOptions :: decoratorOptions where
  "noOptions = \<lparr>optDecoratorName = None, optAllowInheritance = None, optCloneInputSpec = None\<rparr>"

text \<open>
  The state of a factory instance: \<open>key\<close>, \<open>spec\<close>, the options after the defaults
  \<open>{allowInheritance: true, cloneInputSpec: true, ...options}\<close>, and \<open>decoratorName\<close>.
\<close>

record factory =
  key :: string
  spec :: val
  allowInheritanceOpt :: bool
  cloneInputSpecOpt :: bool
  decoratorName :: string

text \<open>
  The constructor, for the class \<open>MethodDecoratorFactory\<close>, whose name without the
  suffix \<open>Factory\<close> is the default decorator name. The first argument is the call depth
  left for \<open>cloneDeep\<close>.
\<close>

definition newMethodDecoratorFactory ::
  "nat \<Rightarrow> heap \<Rightarrow> string \<Rightarrow> val \<Rightarrow> decoratorOptions \<Rightarrow> error + (heap \<times> factory)" where
  "newMethodDecoratorFactory d h k sp options =
     (let allowI = (case optAllowInheritance options of Some b \<Rightarrow> b | None \<Rightarrow> True);
          cloneI = (case optCloneInputSpec options of Some b \<Rightarrow> b | None \<Rightarrow> True);
          name = (case optDecoratorName options of Some n \<Rightarrow> n | None \<Rightarrow> ''MethodDecorator'');
          this = \<lparr>key = k, spec = sp, allowInheritanceOpt = allowI, cloneInputSpecOpt = cloneI,
                  decoratorName = name\<rparr>
      in if cloneI then
           (case cloneDeep d h sp of
              Inl e \<Rightarrow> Inl e
            | Inr (h', sp') \<Rightarrow> Inr (h', this\<lparr>spec := sp'\<rparr>))
         else Inr (h, this))"

definition allowInheritance :: "factory \<Rightarrow> bool" where
  "allowInheritance this = allowInheritanceOpt this"

text \<open>
  \<open>Object.assign(target, source)\<close> for a target that is an object and not an array
  (the one call in \<open>inherit\<close>): the own enumerable properties of the source, in order,
  are set on the target. An array source has its elements at the index keys, a string
  source its characters; the other primitives have none. The hidden origin property is
  not enumerable and is not copied.
\<close>

fun ownEnumerable :: "heap \<Rightarrow> val \<Rightarrow> (string \<times> val) list" where
  "ownEnumerable h (Ref b) =
     (case kind (cells h b) of
        Arr xs \<Rightarrow> zip (map digits [0..<length xs]) xs @ props (cells h b)
      | _ \<Rightarrow> props (cells h b))"
| "ownEnumerable h (Str s) = zip (map digits [0..<length s]) (map (\<lambda>c. Str [c]) s)"
| "ownEnumerable h v = []"

definition objectAssign :: "heap \<Rightarrow> addr \<Rightarrow> val \<Rightarrow> heap" where
  "objectAssign h a source =
     h\<lparr>cells := (cells h)(a := fold (\<lambda>(k, v). setProp k v) (ownEnumerable h source) (cells h a))\<rparr>"

text \<open>
  \<open>inherit\<close> returns a value and may change the inherited object in place. In the last
  case the inherited value has type \<open>object\<close> and is not \<open>null\<close>, so it is a reference.
\<close>

definition inherit :: "factory \<Rightarrow> heap \<Rightarrow> val \<Rightarrow> heap \<times> val" where
  "inherit this h inheritedMetadata =
     (if \<not> allowInheritance this then (h, spec this)
      else if nullish inheritedMetadata then (h, spec this)
      else if nullish (spec this) then (h, inheritedMetadata)
      else if typeof inheritedMetadata \<noteq> TyObject then (h, spec this)
      else if isArray h inheritedMetadata \<or> isArray h (spec this) then (h, spec this)
      else (case inheritedMetadata of
              Ref a \<Rightarrow> (objectAssign h a (spec this), inheritedMetadata)
            | _ \<Rightarrow> (h, inheritedMetadata)))"

text \<open>
  \<open>Object.defineProperty(spec, TARGET, {value: target, enumerable: false,
  configurable: false})\<close>: a first definition creates the property, which is then
  neither writable nor configurable; defining it again is accepted only with the same
  value and is a \<open>TypeError\<close> otherwise.
\<close>

definition withTarget :: "heap \<Rightarrow> val \<Rightarrow> target \<Rightarrow> heap \<times> (error + val)" where
  "withTarget h sp target =
     (case sp of
        Ref a \<Rightarrow>
          (case origin (cells h a) of
             None \<Rightarrow> (h\<lparr>cells := (cells h)(a := (cells h a)\<lparr>origin := Some target\<rparr>)\<rparr>, Inr sp)
           | Some t \<Rightarrow> if t = target then (h, Inr sp) else (h, Inl TypeError))
      | _ \<Rightarrow> (h, Inr sp))"

definition getTarget :: "heap \<Rightarrow> val \<Rightarrow> target option" where
  "getTarget h sp = (case sp of Ref a \<Rightarrow> origin (cells h a) | _ \<Rightarrow> None)"

text \<open>
  \<open>methodName!\<close> used as a property key: a missing name is the key \<open>undefined\<close>.
\<close>

definition propertyKey :: "string option \<Rightarrow> string" where
  "propertyKey methodName = (case methodName of Some n \<Rightarrow> n | None \<Rightarrow> ''undefined'')"

text \<open>
  The metadata argument of the two merge methods is a \<open>MetadataMap\<close> or \<open>undefined\<close>,
  and \<open>undefined\<close> is replaced by a new \<open>{}\<close> (the default parameter value). Reading a
  property of \<open>null\<close> is a \<open>TypeError\<close>. On another primitive the read gives a value
  that is not an object, so that \<open>inherit\<close> changes nothing and \<open>getTarget\<close> finds no
  tag; \<open>withTarget\<close> then tags the spec, and it is the assignment to the property of
  the primitive that throws the \<open>TypeError\<close>, in strict code. Functions are opaque
  values here, so one used as the metadata map is treated like a primitive.
\<close>

definition throwAtAssignment :: "heap \<Rightarrow> val \<Rightarrow> target \<Rightarrow> heap \<times> (error + val)" where
  "throwAtAssignment h sp target =
     (case withTarget h sp target of
        (h', Inl e) \<Rightarrow> (h', Inl e)
      | (h', Inr v) \<Rightarrow> (h', Inl TypeError))"

definition defaultMap :: "heap \<Rightarrow> val \<Rightarrow> heap \<times> val" where
  "defaultMap h meta = (if meta = Undefined then alloc h emptyObj else (h, meta))"

definition mergeWithInherited ::
  "factory \<Rightarrow> heap \<Rightarrow> val \<Rightarrow> target \<Rightarrow> string option \<Rightarrow> heap \<times> (error + val)" where
  "mergeWithInherited this h meta target methodName =
     (case defaultMap h meta of
        (h0, Ref m) \<Rightarrow>
          (case inherit this h0 (getProp (cells h0 m) (propertyKey methodName)) of
             (h1, merged) \<Rightarrow>
               (case withTarget h1 merged target of
                  (h2, Inl e) \<Rightarrow> (h2, Inl e)
                | (h2, Inr v) \<Rightarrow>
                    (h2\<lparr>cells := (cells h2)(m := setProp (propertyKey methodName) v (cells h2 m))\<rparr>,
                     Inr (Ref m))))
      | (h0, Null) \<Rightarrow> (h0, Inl TypeError)
      | (h0, other) \<Rightarrow> throwAtAssignment h0 (spec this) target)"

definition mergeWithOwn ::
  "factory \<Rightarrow> heap \<Rightarrow> val \<Rightarrow> target \<Rightarrow> string option \<Rightarrow> descriptorOrIndex option
     \<Rightarrow> heap \<times> (error + val)" where
  "mergeWithOwn this h meta target methodName methodDescriptor =
     (case defaultMap h meta of
        (h0, Ref m) \<Rightarrow>
          if getTarget h0 (getProp (cells h0 m) (propertyKey methodName)) = Some target
          then (h0, Inl (newDuplicateDecorationError (decoratorName this) target methodName
                           methodDescriptor))
          else
            (case withTarget h0 (spec this) target of
               (h1, Inl e) \<Rightarrow> (h1, Inl e)
             | (h1, Inr v) \<Rightarrow>
                 (h1\<lparr>cells := (cells h1)(m := setProp (propertyKey methodName) v (cells h1 m))\<rparr>,
                  Inr (Ref m)))
      | (h0, Null) \<Rightarrow> (h0, Inl TypeError)
      | (h0, other) \<Rightarrow> throwAtAssignment h0 (spec this) target)"

text \<open>
  A decoration either returns or throws; the world it leaves is kept in both cases,
  since what was mutated before a throw stays mutated.
\<close>

datatype outcome = Returned world | Thrown error world

fun worldOf :: "outcome \<Rightarrow> world" where
  "worldOf (Returned w) = w"
| "worldOf (Thrown e w) = w"

fun thrown :: "outcome \<Rightarrow> error option" where
  "thrown (Returned w) = None"
| "thrown (Thrown e w) = Some e"

definition finish :: "world \<Rightarrow> string \<Rightarrow> target \<Rightarrow> heap \<times> (error + val) \<Rightarrow> outcome" where
  "finish w k target r =
     (case r of
        (h, Inl e) \<Rightarrow> Thrown e (w\<lparr>mem := h\<rparr>)
      | (h, Inr meta) \<Rightarrow> Returned \<lparr>mem = h, store = defineMetadata (store w) k meta target\<rparr>)"

definition decorate ::
  "nat \<Rightarrow> world \<Rightarrow> factory \<Rightarrow> target \<Rightarrow> string option \<Rightarrow> descriptorOrIndex option \<Rightarrow> outcome" where
  "decorate d w this target member descriptorOrIndex =
     (let meta = getOwnMetadata (store w) (key this) target
      in if \<not> truthy meta \<and> allowInheritance this then
           (case cloneDeep d (mem w) (getMetadata (store w) (key this) target) of
              Inl e \<Rightarrow> Thrown e w
            | Inr (h, meta') \<Rightarrow>
                finish w (key this) target (mergeWithInherited this h meta' target member))
         else finish w (key this) target
                (mergeWithOwn this (mem w) meta target member descriptorOrIndex))"

section \<open>inspector.ts\<close>

record inspectionOptions =
  ownMetadataOnly :: "bool option"

definition getAllMethodMetadata ::
  "world \<Rightarrow> string \<Rightarrow> target \<Rightarrow> inspectionOptions option \<Rightarrow> val" where
  "getAllMethodMetadata w k target options =
     (if (case options of Some opts \<Rightarrow> ownMetadataOnly opts = Some True | None \<Rightarrow> False)
      then getOwnMetadata (store w) k target
      else getMetadata (store w) k target)"

text \<open>
  \<open>map?.[methodName ?? '']\<close>: \<open>undefined\<close> when the map is \<open>null\<close> or \<open>undefined\<close>. The
  map is a \<open>MetadataMap\<close> or \<open>undefined\<close> by its type; what a read from a primitive
  gives is not modelled.
\<close>

definition getMethodMetadata ::
  "world \<Rightarrow> string \<Rightarrow> target \<Rightarrow> string option \<Rightarrow> inspectionOptions option \<Rightarrow> val" where
  "getMethodMetadata w k target methodName options =
     (case getAllMethodMetadata w k target options of
        Ref m \<Rightarrow> getProp (cells (mem w) m) (case methodName of Some n \<Rightarrow> n | None \<Rightarrow> [])
      | _ \<Rightarrow> Undefined)"

section \<open>Example classes, specs and decorations\<close>

text \<open>
  The classes and specs of the examples: a class \<open>Base\<close>, its subclass \<open>Derived\<close>, and an
  unrelated class \<open>Other\<close>, all decorated on their prototypes (instance methods).
\<close>

definition base :: target where
  "base = (Prototype, Class ''Base'')"

definition derived :: target where
  "derived = (Prototype, Sub ''Derived'' (Class ''Base''))"

definition other :: target where
  "other = (Prototype, Class ''Other'')"

definition emptyHeap :: heap where
  "emptyHeap = \<lparr>cells = (\<lambda>a. emptyObj), fresh = 0\<rparr>"

text \<open>The caller's two spec objects: \<open>{role: "admin"}\<close> at 0 and \<open>{level: 5}\<close> at 1.\<close>

definition callerHeap :: heap where
  "callerHeap =
     \<lparr>cells = (\<lambda>a. emptyObj)
        (0 := \<lparr>kind = Plain, props = [(''role'', Str ''admin'')], origin = None\<rparr>,
         1 := \<lparr>kind = Plain, props = [(''level'', Num 5)], origin = None\<rparr>),
      fresh = 2\<rparr>"

definition roleFactory :: factory where
  "roleFactory =
     \<lparr>key = ''K'', spec = Ref 0, allowInheritanceOpt = True, cloneInputSpecOpt = True,
      decoratorName = ''MethodDecorator''\<rparr>"

definition levelFactory :: factory where
  "levelFactory =
     \<lparr>key = ''K'', spec = Ref 1, allowInheritanceOpt = True, cloneInputSpecOpt = True,
      decoratorName = ''MethodDecorator''\<rparr>"

text \<open>
  Nothing is decorated yet. Then \<open>Base.foo\<close> is decorated with the first factory, and
  \<open>Derived.foo\<close> with the second.
\<close>

definition initialWorld :: world where
  "initialWorld = \<lparr>mem = callerHeap, store = Map.empty\<rparr>"

definition baseDecorated :: outcome where
  "baseDecorated = decorate 5 initialWorld roleFactory base (Some ''foo'') (Some Descriptor)"

definition derivedDecorated :: outcome where
  "derivedDecorated =
     decorate 5 (worldOf baseDecorated) levelFactory derived (Some ''foo'') (Some Descriptor)"

text \<open>The marker of the first factory applied again, to \<open>Other.bar\<close>.\<close>

definition otherDecorated :: outcome where
  "otherDecorated =
     decorate 5 (worldOf baseDecorated) roleFactory other (Some ''bar'') (Some Descriptor)"

text \<open>The same with the primitive specs \<open>1\<close> and \<open>2\<close>.\<close>

definition numFactory :: "int \<Rightarrow> factory" where
  "numFactory n =
     \<lparr>key = ''K'', spec = Num n, allowInheritanceOpt = True, cloneInputSpecOpt = True,
      decoratorName = ''MethodDecorator''\<rparr>"

definition baseDecoratedNum :: outcome where
  "baseDecoratedNum =
     decorate 5 \<lparr>mem = emptyHeap, store = Map.empty\<rparr> (numFactory 1) base (Some ''foo'')
       (Some Descriptor)"

definition derivedDecoratedNum :: outcome where
  "derivedDecoratedNum =
     decorate 5 (worldOf baseDecoratedNum) (numFactory 2) derived (Some ''foo'') (Some Descriptor)"


text \<open>An array \<open>[{role: "admin"}]\<close> at 2 whose element is the object at 0.\<close>

definition nestedHeap :: heap where
  "nestedHeap =
     callerHeap\<lparr>cells := (cells callerHeap)(2 := \<lparr>kind = Arr [Ref 0], props = [], origin = None\<rparr>),
                 fresh := 3\<rparr>"



text \<open>
  \<open>[1, 2]\<close> at 0 and \<open>[3]\<close> at 1, a factory whose spec is the second, and a factory whose
  spec is \<open>null\<close>.
\<close>

definition arrayHeap :: heap where
  "arrayHeap =
     \<lparr>cells = (\<lambda>a. emptyObj)
        (0 := \<lparr>kind = Arr [Num 1, Num 2], props = [], origin = None\<rparr>,
         1 := \<lparr>kind = Arr [Num 3], props = [], origin = None\<rparr>),
      fresh = 2\<rparr>"

definition arrayFactory :: factory where
  "arrayFactory =
     \<lparr>key = ''K'', spec = Ref 1, allowInheritanceOpt = True, cloneInputSpecOpt = True,
      decoratorName = ''MethodDecorator''\<rparr>"

definition nullFactory :: factory where
  "nullFactory =
     \<lparr>key = ''K'', spec = Null, allowInheritanceOpt = True, cloneInputSpecOpt = True,
      decoratorName = ''MethodDecorator''\<rparr>"




definition ownOnly :: "inspectionOptions option" where
  "ownOnly = Some \<lparr>ownMetadataOnly = Some True\<rparr>"

section \<open>Auxiliary facts\<close>

lemmas model_defs =
  newMethodDecoratorFactory_def decorate_def mergeWithInherited_def mergeWithOwn_def
  inherit_def withTarget_def getTarget_def defaultMap_def alloc_def objectAssign_def
  setProp_def getProp_def finish_def getOwnMetadata_def getMetadata_def defineMetadata_def
  allowInheritance_def emptyObj_def propertyKey_def getAllMethodMetadata_def
  getMethodMetadata_def noOptions_def ownOnly_def objectPrototypeFunctions_def
  throwAtAssignment_def




lemma Sub_neq: "Sub n c \<noteq> c"
  by (induction c) auto

lemma getMetadataOf_empty: "getMetadataOf Map.empty k s c = Undefined"
  by (induction c) (auto simp: getOwnMetadata_def)





lemma factories_built:
  "newMethodDecoratorFactory 5 callerHeap ''K'' (Ref 0) noOptions = Inr (callerHeap, roleFactory)"
  "newMethodDecoratorFactory 5 callerHeap ''K'' (Ref 1) noOptions = Inr (callerHeap, levelFactory)"
  by (simp_all add: model_defs callerHeap_def roleFactory_def levelFactory_def)

lemma baseDecorated_eq:
  "baseDecorated =
     Returned
       \<lparr>mem = \<lparr>cells = (\<lambda>a. emptyObj)
                 (0 := \<lparr>kind = Plain, props = [(''role'', Str ''admin'')], origin = Some base\<rparr>,
                  1 := \<lparr>kind = Plain, props = [(''level'', Num 5)], origin = None\<rparr>,
                  2 := \<lparr>kind = Plain, props = [(''foo'', Ref 0)], origin = None\<rparr>),
               fresh = 3\<rparr>,
        store = [(''K'', base) \<mapsto> Ref 2]\<rparr>"
  apply (simp add: baseDecorated_def initialWorld_def model_defs callerHeap_def roleFactory_def
      base_def)
  apply (rule ext)
  apply simp
  done

lemma baseDecoratedNum_eq:
  "baseDecoratedNum =
     Returned
       \<lparr>mem = \<lparr>cells = (\<lambda>a. emptyObj)
                 (0 := \<lparr>kind = Plain, props = [(''foo'', Num 1)], origin = None\<rparr>),
               fresh = 1\<rparr>,
        store = [(''K'', base) \<mapsto> Ref 0]\<rparr>"
  by (simp add: baseDecoratedNum_def model_defs emptyHeap_def numFactory_def base_def)
















lemma getMetadataOf_Undefined_own:
  "getMetadataOf st k s c = Undefined \<Longrightarrow> getOwnMetadata st k (s, c) = Undefined"
  by (cases c) (auto simp: getOwnMetadata_def split: option.splits)

lemma withTarget_returns:
  assumes "withTarget h sp target = (h', Inr v)"
  shows "v = sp \<and> props (cells h' x) = props (cells h x)"
  using assms by (auto simp: withTarget_def split: val.splits option.splits if_splits)

lemma decorate_fresh:
  assumes fresh: "getMetadata (store w) (key this) target = Undefined"
    and name: "ordinaryName k"
    and ret: "decorate d w this target (Some k) di = Returned w'"
  shows "\<exists>h' m. w' = \<lparr>mem = h', store = (store w)((key this, target) \<mapsto> Ref m)\<rparr> \<and>
           props (cells h' m) = [(k, spec this)]"
proof -
  from fresh have own: "getOwnMetadata (store w) (key this) target = Undefined"
    using getMetadataOf_Undefined_own [of "store w" "key this" "fst target" "snd target"]
    by (simp add: getMetadata_def)
  from name have read: "getProp emptyObj k = Undefined"
    by (simp add: getProp_def emptyObj_def ordinaryName_def)
  obtain h0 m where al: "alloc (mem w) emptyObj = (h0, Ref m)" and cell: "cells h0 m = emptyObj"
    by (simp add: alloc_def)
  have inh: "inherit this h0 Undefined = (h0, spec this)"
    by (simp add: inherit_def)
  from ret own fresh obtain h1 u where
    wt: "withTarget h0 (spec this) target = (h1, Inr u)" and
    w': "w' = \<lparr>mem = h1\<lparr>cells := (cells h1)(m := setProp k u (cells h1 m))\<rparr>,
                store = (store w)((key this, target) \<mapsto> Ref m)\<rparr>"
    by (auto simp: decorate_def finish_def defineMetadata_def mergeWithInherited_def
        mergeWithOwn_def defaultMap_def propertyKey_def getTarget_def al cell read inh
        split: if_splits sum.splits prod.splits)
  from withTarget_returns [OF wt, of m] cell have "u = spec this" "props (cells h1 m) = []"
    by (simp_all add: emptyObj_def)
  then have "props (cells (h1\<lparr>cells := (cells h1)(m := setProp k u (cells h1 m))\<rparr>) m)
               = [(k, spec this)]"
    by (simp add: setProp_def)
  with w' show ?thesis by blast
qed

section \<open>The claims\<close>

text \<open>
  C4 (deep clone contract): for every non-cyclic spec, the clone is deeply equal to the
  spec and shares no mutable structure with it: the clone of an object is a different
  object, and so are its nested objects and arrays. The code does not do that for an
  object that is neither an array nor a date: \<open>cloneDeep\<close> of \<open>{role: "admin"}\<close> is the
  very same object, in an unchanged heap, and the clone of the array
  \<open>[{role: "admin"}]\<close> is a new array (at 3) whose element is still the object at 0.
\<close>

theorem cloneDeep_returns_same_object:
  "cloneDeep 5 callerHeap (Ref 0) = Inr (callerHeap, Ref 0) \<and>
   (case cloneDeep 5 nestedHeap (Ref 2) of
      Inr (h, v) \<Rightarrow> v = Ref 3 \<and> kind (cells h 3) = Arr [Ref 0]
    | Inl e \<Rightarrow> False)"
  by (simp add: callerHeap_def nestedHeap_def alloc_def)

text \<open>
  C1 (end to end): a factory with key \<open>K\<close> and spec \<open>{role: "admin"}\<close> decorates
  \<open>Base.foo\<close>, a second factory with key \<open>K\<close> and spec \<open>{level: 5}\<close> decorates
  \<open>Derived.foo\<close>; then the metadata of \<open>foo\<close> is \<open>{role: "admin", level: 5}\<close> on the
  subclass and still \<open>{role: "admin"}\<close> on the base class. The code does not get there:
  the metadata map of the base class comes back from \<open>cloneDeep\<close> as itself, the spec of
  the second factory is assigned into the stored spec of the base class, and tagging
  that object, already tagged with \<open>Base\<close>, with \<open>Derived\<close> throws a \<open>TypeError\<close>.
  Nothing is stored for the subclass, and both lookups find the one object at 0, which
  now has both properties.
\<close>

theorem end_to_end_derived_decoration_throws:
  "newMethodDecoratorFactory 5 callerHeap ''K'' (Ref 0) noOptions = Inr (callerHeap, roleFactory) \<and>
   newMethodDecoratorFactory 5 callerHeap ''K'' (Ref 1) noOptions = Inr (callerHeap, levelFactory) \<and>
   thrown baseDecorated = None \<and>
   thrown derivedDecorated = Some TypeError \<and>
   getOwnMetadata (store (worldOf derivedDecorated)) ''K'' derived = Undefined \<and>
   getMethodMetadata (worldOf derivedDecorated) ''K'' derived (Some ''foo'') None = Ref 0 \<and>
   getMethodMetadata (worldOf derivedDecorated) ''K'' base (Some ''foo'') None = Ref 0 \<and>
   props (cells (mem (worldOf derivedDecorated)) 0) =
     [(''role'', Str ''admin''), (''level'', Num 5)]"
proof -
  have "thrown baseDecorated = None \<and>
    thrown derivedDecorated = Some TypeError \<and>
    getOwnMetadata (store (worldOf derivedDecorated)) ''K'' derived = Undefined \<and>
    getMethodMetadata (worldOf derivedDecorated) ''K'' derived (Some ''foo'') None = Ref 0 \<and>
    getMethodMetadata (worldOf derivedDecorated) ''K'' base (Some ''foo'') None = Ref 0 \<and>
    props (cells (mem (worldOf derivedDecorated)) 0) =
      [(''role'', Str ''admin''), (''level'', Num 5)]"
    by (simp add: derivedDecorated_def baseDecorated_eq model_defs levelFactory_def base_def
        derived_def)
  with factories_built show ?thesis by simp
qed

text \<open>
  C2 (inheritance isolation): after the base class member is decorated with \<open>s1\<close> and
  the same member of a subclass with \<open>s2\<close>, the own metadata of the base class for that
  member still equals \<open>s1\<close>. The code breaks this. With \<open>s1 = 1\<close> and \<open>s2 = 2\<close> both
  decorations return and the own metadata of the base class for \<open>foo\<close> has become \<open>2\<close>.
  With \<open>s1 = {role: "admin"}\<close> and \<open>s2 = {level: 5}\<close> the stored spec of the base class,
  the object at 0, has gained \<open>level\<close>.
\<close>

theorem base_metadata_changed_by_subclass:
  "newMethodDecoratorFactory 5 emptyHeap ''K'' (Num 1) noOptions = Inr (emptyHeap, numFactory 1) \<and>
   newMethodDecoratorFactory 5 emptyHeap ''K'' (Num 2) noOptions = Inr (emptyHeap, numFactory 2) \<and>
   thrown baseDecoratedNum = None \<and>
   getMethodMetadata (worldOf baseDecoratedNum) ''K'' base (Some ''foo'') ownOnly = Num 1 \<and>
   thrown derivedDecoratedNum = None \<and>
   getMethodMetadata (worldOf derivedDecoratedNum) ''K'' base (Some ''foo'') ownOnly = Num 2 \<and>
   getMethodMetadata (worldOf baseDecorated) ''K'' base (Some ''foo'') ownOnly = Ref 0 \<and>
   props (cells (mem (worldOf baseDecorated)) 0) = [(''role'', Str ''admin'')] \<and>
   getMethodMetadata (worldOf derivedDecorated) ''K'' base (Some ''foo'') ownOnly = Ref 0 \<and>
   props (cells (mem (worldOf derivedDecorated)) 0) =
     [(''role'', Str ''admin''), (''level'', Num 5)]"
proof -
  have built: "newMethodDecoratorFactory 5 emptyHeap ''K'' (Num n) noOptions
                 = Inr (emptyHeap, numFactory n)" for n
    by (simp add: newMethodDecoratorFactory_def noOptions_def numFactory_def)
  have nums: "thrown baseDecoratedNum = None \<and>
    getMethodMetadata (worldOf baseDecoratedNum) ''K'' base (Some ''foo'') ownOnly = Num 1 \<and>
    thrown derivedDecoratedNum = None \<and>
    getMethodMetadata (worldOf derivedDecoratedNum) ''K'' base (Some ''foo'') ownOnly = Num 2"
    by (simp add: derivedDecoratedNum_def baseDecoratedNum_eq model_defs numFactory_def base_def
        derived_def)
  have objs: "getMethodMetadata (worldOf baseDecorated) ''K'' base (Some ''foo'') ownOnly = Ref 0 \<and>
    props (cells (mem (worldOf baseDecorated)) 0) = [(''role'', Str ''admin'')] \<and>
    getMethodMetadata (worldOf derivedDecorated) ''K'' base (Some ''foo'') ownOnly = Ref 0 \<and>
    props (cells (mem (worldOf derivedDecorated)) 0) =
      [(''role'', Str ''admin''), (''level'', Num 5)]"
    by (simp add: derivedDecorated_def baseDecorated_eq model_defs levelFactory_def base_def
        derived_def)
  from built nums objs show ?thesis by simp
qed

text \<open>
  C8 (input-spec protection): the options default to \<open>allowInheritance = true\<close> and
  \<open>cloneInputSpec = true\<close>, and the caller's spec object is left unchanged by the
  construction of the factory and by every later decoration. The defaults are as
  claimed, but the spec of the factory built from the caller's object at 0 is that
  same object: decorating \<open>Base.foo\<close> defines the hidden origin property on it, and
  decorating \<open>Derived.foo\<close> adds \<open>level\<close> to it.
\<close>

theorem caller_spec_not_protected:
  "newMethodDecoratorFactory 5 callerHeap ''K'' (Ref 0) noOptions = Inr (callerHeap, roleFactory) \<and>
   allowInheritanceOpt roleFactory \<and> cloneInputSpecOpt roleFactory \<and>
   spec roleFactory = Ref 0 \<and>
   origin (cells callerHeap 0) = None \<and>
   origin (cells (mem (worldOf baseDecorated)) 0) = Some base \<and>
   props (cells callerHeap 0) = [(''role'', Str ''admin'')] \<and>
   props (cells (mem (worldOf derivedDecorated)) 0) =
     [(''role'', Str ''admin''), (''level'', Num 5)]"
  by (simp add: factories_built derivedDecorated_def baseDecorated_eq model_defs levelFactory_def
      roleFactory_def base_def derived_def callerHeap_def)

text \<open>
  C10 (one marker on two unrelated classes): the factory with the object-valued spec
  at 0 decorates \<open>Base.foo\<close>; the class \<open>Other\<close> has no metadata under the key; applying
  the same marker to \<open>Other.bar\<close> throws a \<open>TypeError\<close>, not a
  \<open>DuplicateDecorationError\<close>.
\<close>

theorem marker_reuse_on_other_class_TypeError:
  "spec roleFactory = Ref 0 \<and>
   thrown baseDecorated = None \<and>
   getMetadata (store (worldOf baseDecorated)) (key roleFactory) other = Undefined \<and>
   thrown otherDecorated = Some TypeError"
  by (simp add: otherDecorated_def baseDecorated_eq model_defs roleFactory_def base_def other_def)








text \<open>
  C6 (array replace, not merge), as stated: whenever the inherited value or the new
  spec is an array, the result of the merge is the new spec. That fails when the new
  spec is \<open>null\<close>: with the inherited array \<open>[1, 2]\<close>, \<open>inherit\<close> returns the inherited
  array, since the test \<open>this.spec == null\<close> comes before the test for arrays.
\<close>

theorem inherit_null_spec_keeps_inherited_array:
  "isArray arrayHeap (Ref 0) \<and> spec nullFactory = Null \<and>
   inherit nullFactory arrayHeap (Ref 0) = (arrayHeap, Ref 0)"
  by (simp add: model_defs nullFactory_def arrayHeap_def)

text \<open>
  C6, amended: whenever the inherited value or the new spec is an array and the new
  spec is neither \<open>null\<close> nor \<open>undefined\<close>, \<open>inherit\<close> returns the new spec and changes
  nothing in the heap: arrays are never combined.
\<close>

theorem inherit_array_replaces:
  assumes "isArray h inheritedMetadata \<or> isArray h (spec this)"
    and "\<not> nullish (spec this)"
  shows "inherit this h inheritedMetadata = (h, spec this)"
  using assms by (cases inheritedMetadata) (auto simp: inherit_def)

text \<open>C6, the example: inherited \<open>[1, 2]\<close> merged with new \<open>[3]\<close> is \<open>[3]\<close>, the array at 1.\<close>

theorem inherit_array_replaces_witness:
  "(isArray arrayHeap (Ref 0) \<or> isArray arrayHeap (spec arrayFactory)) \<and>
   \<not> nullish (spec arrayFactory) \<and>
   inherit arrayFactory arrayHeap (Ref 0) = (arrayHeap, Ref 1) \<and>
   kind (cells arrayHeap 1) = Arr [Num 3]"
proof -
  have h1: "isArray arrayHeap (Ref 0) \<or> isArray arrayHeap (spec arrayFactory)"
    by (simp add: arrayHeap_def)
  have h2: "\<not> nullish (spec arrayFactory)"
    by (simp add: arrayFactory_def)
  from inherit_array_replaces [OF h1 h2] show ?thesis
    using h1 h2 by (simp add: arrayFactory_def arrayHeap_def)
qed

text \<open>
  C7 (own-only versus effective lookup): after a member of a base class alone has been
  decorated, \<open>getMethodMetadata\<close> on a subclass without own metadata returns \<open>undefined\<close>
  with \<open>ownMetadataOnly: true\<close>, and without the flag it returns the value of the base
  class for that member. Where nothing was stored for the base class before and the
  member has an ordinary name, that value is the spec decorated on the member, and the
  lookup of any other ordinary member name is \<open>undefined\<close>. Where there is no metadata at
  all the lookup returns \<open>undefined\<close>.
\<close>

theorem own_only_versus_effective_lookup:
  assumes "store w (key this, (s, Sub n c)) = None"
    and "decorate d w this (s, c) member di = Returned w'"
  shows "getMethodMetadata w' (key this) (s, Sub n c) member ownOnly = Undefined \<and>
         getMethodMetadata w' (key this) (s, Sub n c) member None =
           getMethodMetadata w' (key this) (s, c) member ownOnly \<and>
         (getMetadata (store w) (key this) (s, c) = Undefined \<and> member = Some k \<and>
          ordinaryName k \<longrightarrow>
            getMethodMetadata w' (key this) (s, Sub n c) (Some k) None = spec this \<and>
            (\<forall>k'. k' \<noteq> k \<and> ordinaryName k' \<longrightarrow>
               getMethodMetadata w' (key this) (s, Sub n c) (Some k') None = Undefined)) \<and>
         getMethodMetadata \<lparr>mem = h, store = Map.empty\<rparr> key' t m opts = Undefined"
proof -
  from assms(2) obtain h' meta where
    w': "w' = \<lparr>mem = h', store = defineMetadata (store w) (key this) meta (s, c)\<rparr>"
    by (auto simp: decorate_def finish_def Let_def split: if_splits sum.splits prod.splits)
  have own: "store w' (key this, (s, Sub n c)) = None"
    using assms(1) Sub_neq by (simp add: w' defineMetadata_def)
  have def: "store w' (key this, (s, c)) = Some meta"
    by (simp add: w' defineMetadata_def)
  have eff: "getMetadataOf (store w') (key this) s c = meta"
    using def by (cases c) (simp_all add: getOwnMetadata_def)
  have reads: "getMethodMetadata w' (key this) (s, Sub n c) member ownOnly = Undefined \<and>
         getMethodMetadata w' (key this) (s, Sub n c) member None =
           getMethodMetadata w' (key this) (s, c) member ownOnly \<and>
         getMethodMetadata \<lparr>mem = h, store = Map.empty\<rparr> key' t m opts = Undefined"
    using own def eff
    by (simp add: getMethodMetadata_def getAllMethodMetadata_def getOwnMetadata_def
        getMetadata_def ownOnly_def getMetadataOf_empty)
  have pinned: "getMethodMetadata w' (key this) (s, Sub n c) (Some k) None = spec this \<and>
            (\<forall>k'. k' \<noteq> k \<and> ordinaryName k' \<longrightarrow>
               getMethodMetadata w' (key this) (s, Sub n c) (Some k') None = Undefined)"
    if fresh: "getMetadata (store w) (key this) (s, c) = Undefined"
      and mem: "member = Some k" and name: "ordinaryName k"
  proof -
    from decorate_fresh [OF fresh name assms(2) [unfolded mem]] w' obtain mp where
      meta: "meta = Ref mp" and slots: "props (cells h' mp) = [(k, spec this)]"
      by (auto simp: defineMetadata_def dest: fun_upd_eqD)
    show ?thesis
      using own eff meta slots
      by (simp add: getMethodMetadata_def getAllMethodMetadata_def getMetadata_def w' getProp_def
          ordinaryName_def)
  qed
  from reads pinned show ?thesis by blast
qed

text \<open>
  C7, the example: after \<open>Base.foo\<close> is decorated with \<open>{role: "admin"}\<close>, the object at 0,
  where nothing was stored before, the own lookup of \<open>foo\<close> on \<open>Derived\<close> is \<open>undefined\<close>,
  the effective lookup of \<open>foo\<close> is the spec, and the effective lookup of \<open>bar\<close> is
  \<open>undefined\<close>.
\<close>

theorem own_only_versus_effective_lookup_witness:
  "store initialWorld (key roleFactory, derived) = None \<and>
   decorate 5 initialWorld roleFactory base (Some ''foo'') (Some Descriptor)
     = Returned (worldOf baseDecorated) \<and>
   getMetadata (store initialWorld) (key roleFactory) base = Undefined \<and>
   ordinaryName ''foo'' \<and> ''bar'' \<noteq> ''foo'' \<and> ordinaryName ''bar'' \<and>
   spec roleFactory = Ref 0 \<and>
   getMethodMetadata (worldOf baseDecorated) ''K'' derived (Some ''foo'') ownOnly = Undefined \<and>
   getMethodMetadata (worldOf baseDecorated) ''K'' derived (Some ''foo'') None = Ref 0 \<and>
   getMethodMetadata (worldOf baseDecorated) ''K'' base (Some ''foo'') ownOnly = Ref 0 \<and>
   getMethodMetadata (worldOf baseDecorated) ''K'' derived (Some ''bar'') None = Undefined \<and>
   getMethodMetadata initialWorld ''K'' derived (Some ''foo'') None = Undefined"
proof -
  have own: "store initialWorld (key roleFactory, (Prototype, Sub ''Derived'' (Class ''Base''))) = None"
    by (simp add: initialWorld_def)
  have ret: "decorate 5 initialWorld roleFactory (Prototype, Class ''Base'') (Some ''foo'')
               (Some Descriptor) = Returned (worldOf baseDecorated)"
    unfolding base_def [symmetric] baseDecorated_def [symmetric] by (simp add: baseDecorated_eq)
  have fresh: "getMetadata (store initialWorld) (key roleFactory) (Prototype, Class ''Base'') = Undefined"
    by (simp add: initialWorld_def getMetadata_def getOwnMetadata_def)
  have foo: "ordinaryName ''foo''" and neq: "''bar'' \<noteq> ''foo''" and bar: "ordinaryName ''bar''"
    by (simp_all add: ordinaryName_def objectPrototypeFunctions_def)
  have k: "key roleFactory = ''K''" and sp: "spec roleFactory = Ref 0"
    by (simp_all add: roleFactory_def)
  note all = own_only_versus_effective_lookup
         [OF own ret, where k = "''foo''" and h = callerHeap and key' = "''K''" and t = derived
            and m = "Some ''foo''" and opts = None]
  have hyp: "getMetadata (store initialWorld) (key roleFactory) (Prototype, Class ''Base'') = Undefined \<and>
             Some ''foo'' = Some ''foo'' \<and> ordinaryName ''foo''"
    using fresh foo by simp
  note pinned = all [THEN conjunct2, THEN conjunct2, THEN conjunct1, THEN mp, OF hyp]
  have c1: "getMethodMetadata (worldOf baseDecorated) ''K'' derived (Some ''foo'') ownOnly = Undefined"
    using all [THEN conjunct1] unfolding k derived_def .
  have c2: "getMethodMetadata (worldOf baseDecorated) ''K'' derived (Some ''foo'') None = Ref 0"
    using pinned [THEN conjunct1] unfolding k sp derived_def .
  have eq: "getMethodMetadata (worldOf baseDecorated) ''K'' derived (Some ''foo'') None =
            getMethodMetadata (worldOf baseDecorated) ''K'' base (Some ''foo'') ownOnly"
    using all [THEN conjunct2, THEN conjunct1] unfolding k derived_def base_def .
  have c3: "getMethodMetadata (worldOf baseDecorated) ''K'' base (Some ''foo'') ownOnly = Ref 0"
    using eq [symmetric] c2 by (rule trans)
  have c4: "getMethodMetadata (worldOf baseDecorated) ''K'' derived (Some ''bar'') None = Undefined"
    using pinned [THEN conjunct2, THEN spec, of "''bar''", THEN mp, OF conjI, OF neq bar]
    unfolding k derived_def .
  have c5: "getMethodMetadata initialWorld ''K'' derived (Some ''foo'') None = Undefined"
    using all [THEN conjunct2, THEN conjunct2, THEN conjunct2] unfolding initialWorld_def .
  have own': "store initialWorld (key roleFactory, derived) = None"
    using own unfolding derived_def .
  have ret': "decorate 5 initialWorld roleFactory base (Some ''foo'') (Some Descriptor)
     = Returned (worldOf baseDecorated)"
    using ret unfolding base_def .
  have fresh': "getMetadata (store initialWorld) (key roleFactory) base = Undefined"
    using fresh unfolding base_def .
  show ?thesis
    by (intro conjI) (rule own' ret' fresh' foo neq bar sp c1 c2 c3 c4 c5)+
qed




end
